theory Spec2Isabelle
  imports Complex_Main
begin

section \<open>Data model\<close>

text \<open>
  The engine of \<^verbatim>\<open>src/services/WealthProjectionService.ts\<close> works on JavaScript
  numbers and \<^verbatim>\<open>Date\<close> objects. Finite numbers are modelled as exact reals: the
  rounding error of IEEE doubles and overflow are outside the model, and every
  concrete evaluation below is chosen so that its result does not depend on them.

  A \<^verbatim>\<open>Date\<close> is modelled by its local calendar fields, which is what
  \<^verbatim>\<open>getFullYear\<close> and \<^verbatim>\<open>getMonth\<close> read; \<^verbatim>\<open>getMonth\<close> is zero-based as in
  JavaScript. Comparing two dates with \<^verbatim>\<open><\<close> compares their instants, which for
  well-formed dates of one time zone is the lexicographic order of the fields.
\<close>

record jsDate =
  getFullYear :: int
  getMonth :: int
  getDate :: int
  msOfDay :: int

definition date_less :: "jsDate \<Rightarrow> jsDate \<Rightarrow> bool" where
  "date_less a b \<longleftrightarrow>
     getFullYear a < getFullYear b \<or>
     (getFullYear a = getFullYear b \<and>
       (getMonth a < getMonth b \<or>
        (getMonth a = getMonth b \<and>
          (getDate a < getDate b \<or>
           (getDate a = getDate b \<and> msOfDay a < msOfDay b)))))"

text \<open>\<^verbatim>\<open>new Date(targetYear, month, 1)\<close>: local midnight on the first of the month.\<close>

definition newDate :: "int \<Rightarrow> int \<Rightarrow> int \<Rightarrow> jsDate" where
  "newDate y m d = \<lparr>getFullYear = y, getMonth = m, getDate = d, msOfDay = 0\<rparr>"

text \<open>
  An event as the engine reads it: the fields \<^verbatim>\<open>type\<close>, \<^verbatim>\<open>value\<close> (through
  \<^verbatim>\<open>Number(event.value)\<close>), \<^verbatim>\<open>frequency\<close>, \<^verbatim>\<open>startDate\<close> and \<^verbatim>\<open>endDate\<close>, the first three
  with the prefix \<open>ev_\<close>. The type and the frequency range over the values that the
  event routes accept.
\<close>

datatype event_type = INCOME | EXPENSE | INVESTMENT | WITHDRAWAL | BONUS | INHERITANCE | LOAN

datatype frequency = ONCE | MONTHLY | QUARTERLY | ANNUALLY

record event =
  ev_type :: event_type
  ev_value :: real
  ev_frequency :: frequency
  startDate :: jsDate
  endDate :: "jsDate option"

record ProjectionPoint =
  year :: int
  projectedValue :: real

record WealthProjectionParams =
  initialValue :: real
  interestRate :: real
  events :: "event list"
  projectionYears :: int

section \<open>Event applicability\<close>

text \<open>JavaScript's \<^verbatim>\<open>%\<close> truncates towards zero: the result takes the sign of the dividend.\<close>

definition js_rem :: "int \<Rightarrow> int \<Rightarrow> int" where
  "js_rem a b = sgn a * (\<bar>a\<bar> mod \<bar>b\<bar>)"

definition getMonthsDifference :: "jsDate \<Rightarrow> jsDate \<Rightarrow> int" where
  "getMonthsDifference sd targetDate =
     (let yearDiff = getFullYear targetDate - getFullYear sd;
          monthDiff = getMonth targetDate - getMonth sd
      in yearDiff * 12 + monthDiff)"

text \<open>
  One iteration of the loop of \<^verbatim>\<open>getEventsForMonth\<close>: the two \<^verbatim>\<open>continue\<close> guards,
  then the \<^verbatim>\<open>switch\<close> on the frequency. True when the event is pushed.
\<close>

definition event_applies :: "event \<Rightarrow> jsDate \<Rightarrow> bool" where
  "event_applies e targetDate =
     (if date_less targetDate (startDate e) then False
      else if (case endDate e of None \<Rightarrow> False | Some ed \<Rightarrow> date_less ed targetDate) then False
      else (case ev_frequency e of
              ONCE \<Rightarrow> getFullYear (startDate e) = getFullYear targetDate \<and>
                      getMonth (startDate e) = getMonth targetDate
            | MONTHLY \<Rightarrow> True
            | QUARTERLY \<Rightarrow> js_rem (getMonthsDifference (startDate e) targetDate) 3 = 0
            | ANNUALLY \<Rightarrow> getMonth (startDate e) = getMonth targetDate))"

fun getEventsForMonth :: "event list \<Rightarrow> jsDate \<Rightarrow> event list" where
  "getEventsForMonth [] targetDate = []"
| "getEventsForMonth (e # es) targetDate =
     (if event_applies e targetDate then e # getEventsForMonth es targetDate
      else getEventsForMonth es targetDate)"

section \<open>The wealth curve simulator\<close>

text \<open>\<^verbatim>\<open>Math.round\<close> rounds to the nearest integer, ties towards \<open>+\<infinity>\<close>.\<close>

definition Math_round :: "real \<Rightarrow> real" where
  "Math_round x = of_int \<lfloor>x + 1 / 2\<rfloor>"

text \<open>The body of the \<^verbatim>\<open>for (const event of eventsThisMonth)\<close> loop.\<close>

definition applyEvent :: "real \<Rightarrow> event \<Rightarrow> real" where
  "applyEvent currentValue e =
     (if ev_type e \<in> {INCOME, BONUS, INHERITANCE, INVESTMENT} then currentValue + ev_value e
      else if ev_type e \<in> {EXPENSE, WITHDRAWAL, LOAN} then currentValue - ev_value e
      else currentValue)"

text \<open>The body of the \<^verbatim>\<open>for (let month = 0; month < 12; month++)\<close> loop.\<close>

definition monthStep :: "real \<Rightarrow> event list \<Rightarrow> int \<Rightarrow> real \<Rightarrow> int \<Rightarrow> real" where
  "monthStep monthlyRate evs targetYear currentValue month =
     (let grown = currentValue * (1 + monthlyRate);
          monthDate = newDate targetYear month 1;
          eventsThisMonth = getEventsForMonth evs monthDate
      in max 0 (foldl applyEvent grown eventsThisMonth))"

text \<open>
  The body of the \<^verbatim>\<open>for (let year = 0; year <= projectionYears; year++)\<close> loop, on
  the pair of the running value and the points pushed so far.
\<close>

definition yearStep ::
  "int \<Rightarrow> real \<Rightarrow> event list \<Rightarrow> real \<times> ProjectionPoint list \<Rightarrow> int \<Rightarrow> real \<times> ProjectionPoint list" where
  "yearStep currentYear monthlyRate evs st y =
     (let targetYear = currentYear + y;
          currentValue = foldl (monthStep monthlyRate evs targetYear) (fst st) [0..11]
      in (currentValue,
          snd st @ [\<lparr>year = targetYear, projectedValue = Math_round (currentValue * 100) / 100\<rparr>]))"

text \<open>
  \<^verbatim>\<open>simulateWealthCurve\<close>. The calendar year read from the clock
  (\<^verbatim>\<open>new Date().getFullYear()\<close>) is the explicit argument \<open>currentYear\<close>.
  \<open>yearLoop\<close> is the state when the outer loop ends: the running
  \<^verbatim>\<open>currentValue\<close>, not rounded, and \<^verbatim>\<open>projectionData\<close>, which is returned.
\<close>

definition yearLoop :: "int \<Rightarrow> WealthProjectionParams \<Rightarrow> real \<times> ProjectionPoint list" where
  "yearLoop currentYear params =
     (let monthlyRate = interestRate params / 12
      in foldl (yearStep currentYear monthlyRate (events params))
           (initialValue params, []) [0..projectionYears params])"

definition simulateWealthCurve :: "int \<Rightarrow> WealthProjectionParams \<Rightarrow> ProjectionPoint list" where
  "simulateWealthCurve currentYear params = snd (yearLoop currentYear params)"

section \<open>Non-finite numbers\<close>

text \<open>
  The analytics divide by computed quantities, so their results can be
  \<^verbatim>\<open>Infinity\<close>, \<^verbatim>\<open>-Infinity\<close> or \<^verbatim>\<open>NaN\<close>. A JavaScript number is modelled as a
  finite real or one of these three values, with the arithmetic of ECMAScript on
  them. Arguments of the operations are finite; zero is the positive zero (the
  model has no signed zero), so a positive number divided by zero is \<^verbatim>\<open>Infinity\<close>.
\<close>

datatype jsnum = Fin real | PosInf | NegInf | NaN

fun js_neg :: "jsnum \<Rightarrow> jsnum" where
  "js_neg (Fin x) = Fin (- x)"
| "js_neg PosInf = NegInf"
| "js_neg NegInf = PosInf"
| "js_neg NaN = NaN"

fun js_add :: "jsnum \<Rightarrow> jsnum \<Rightarrow> jsnum" where
  "js_add (Fin x) (Fin y) = Fin (x + y)"
| "js_add NaN b = NaN"
| "js_add a NaN = NaN"
| "js_add PosInf NegInf = NaN"
| "js_add NegInf PosInf = NaN"
| "js_add PosInf b = PosInf"
| "js_add a PosInf = PosInf"
| "js_add NegInf b = NegInf"
| "js_add a NegInf = NegInf"

definition js_sub :: "jsnum \<Rightarrow> jsnum \<Rightarrow> jsnum" where
  "js_sub a b = js_add a (js_neg b)"

text \<open>The infinity with the sign of a product or quotient of two signs.\<close>

definition signed_inf :: "bool \<Rightarrow> jsnum" where
  "signed_inf positive = (if positive then PosInf else NegInf)"

fun js_mul :: "jsnum \<Rightarrow> jsnum \<Rightarrow> jsnum" where
  "js_mul (Fin x) (Fin y) = Fin (x * y)"
| "js_mul NaN b = NaN"
| "js_mul a NaN = NaN"
| "js_mul PosInf (Fin y) = (if y = 0 then NaN else signed_inf (0 < y))"
| "js_mul NegInf (Fin y) = (if y = 0 then NaN else signed_inf (y < 0))"
| "js_mul (Fin x) PosInf = (if x = 0 then NaN else signed_inf (0 < x))"
| "js_mul (Fin x) NegInf = (if x = 0 then NaN else signed_inf (x < 0))"
| "js_mul PosInf PosInf = PosInf"
| "js_mul PosInf NegInf = NegInf"
| "js_mul NegInf PosInf = NegInf"
| "js_mul NegInf NegInf = PosInf"

fun js_div :: "jsnum \<Rightarrow> jsnum \<Rightarrow> jsnum" where
  "js_div (Fin x) (Fin y) =
     (if y \<noteq> 0 then Fin (x / y)
      else if x = 0 then NaN
      else signed_inf (0 < x))"
| "js_div NaN b = NaN"
| "js_div a NaN = NaN"
| "js_div (Fin x) PosInf = Fin 0"
| "js_div (Fin x) NegInf = Fin 0"
| "js_div PosInf (Fin y) = signed_inf (0 \<le> y)"
| "js_div NegInf (Fin y) = signed_inf (y < 0)"
| "js_div PosInf PosInf = NaN"
| "js_div PosInf NegInf = NaN"
| "js_div NegInf PosInf = NaN"
| "js_div NegInf NegInf = NaN"

text \<open>\<^verbatim>\<open>a > b\<close> and \<^verbatim>\<open>a <= b\<close>: every comparison with \<^verbatim>\<open>NaN\<close> is false.\<close>

fun js_gt :: "jsnum \<Rightarrow> jsnum \<Rightarrow> bool" where
  "js_gt (Fin x) (Fin y) = (y < x)"
| "js_gt NaN b = False"
| "js_gt a NaN = False"
| "js_gt PosInf PosInf = False"
| "js_gt PosInf b = True"
| "js_gt NegInf b = False"
| "js_gt (Fin x) PosInf = False"
| "js_gt (Fin x) NegInf = True"

fun js_le :: "jsnum \<Rightarrow> jsnum \<Rightarrow> bool" where
  "js_le (Fin x) (Fin y) = (x \<le> y)"
| "js_le NaN b = False"
| "js_le a NaN = False"
| "js_le NegInf b = True"
| "js_le a PosInf = True"
| "js_le PosInf b = False"
| "js_le (Fin x) NegInf = False"

fun js_round :: "jsnum \<Rightarrow> jsnum" where
  "js_round (Fin x) = Fin (Math_round x)"
| "js_round a = a"

fun js_max :: "jsnum \<Rightarrow> jsnum \<Rightarrow> jsnum" where
  "js_max (Fin x) (Fin y) = Fin (max x y)"
| "js_max NaN b = NaN"
| "js_max a NaN = NaN"
| "js_max PosInf b = PosInf"
| "js_max a PosInf = PosInf"
| "js_max NegInf b = b"
| "js_max a NegInf = a"

text \<open>
  \<^verbatim>\<open>Math.pow\<close>, by the cases of ECMAScript's \<^verbatim>\<open>Number::exponentiate\<close>: a negative
  finite base has a power only for an integral exponent.
\<close>

definition is_odd_integer :: "real \<Rightarrow> bool" where
  "is_odd_integer y \<longleftrightarrow> of_int \<lfloor>y\<rfloor> = y \<and> odd \<lfloor>y\<rfloor>"

definition real_pow :: "real \<Rightarrow> real \<Rightarrow> jsnum" where
  "real_pow x y =
     (if 0 < x then Fin (x powr y)
      else if x = 0 then (if 0 < y then Fin 0 else PosInf)
      else if of_int \<lfloor>y\<rfloor> = y then Fin (x powi \<lfloor>y\<rfloor>)
      else NaN)"

fun js_pow :: "jsnum \<Rightarrow> jsnum \<Rightarrow> jsnum" where
  "js_pow b NaN = NaN"
| "js_pow b (Fin y) =
     (if y = 0 then Fin 1
      else case b of
        NaN \<Rightarrow> NaN
      | PosInf \<Rightarrow> (if 0 < y then PosInf else Fin 0)
      | NegInf \<Rightarrow> (if 0 < y then (if is_odd_integer y then NegInf else PosInf) else Fin 0)
      | Fin x \<Rightarrow> real_pow x y)"
| "js_pow NaN PosInf = NaN"
| "js_pow NaN NegInf = NaN"
| "js_pow PosInf PosInf = PosInf"
| "js_pow NegInf PosInf = PosInf"
| "js_pow PosInf NegInf = Fin 0"
| "js_pow NegInf NegInf = Fin 0"
| "js_pow (Fin x) PosInf = (if 1 < \<bar>x\<bar> then PosInf else if \<bar>x\<bar> = 1 then NaN else Fin 0)"
| "js_pow (Fin x) NegInf = (if 1 < \<bar>x\<bar> then Fin 0 else if \<bar>x\<bar> = 1 then NaN else PosInf)"

section \<open>Planning analytics\<close>

datatype suggestion_type = CONGRATULATIONS | INCREASE_CONTRIBUTION | ADJUST_ALLOCATION

text \<open>
  A suggestion as \<^verbatim>\<open>generateAutoSuggestions\<close> pushes it; \<^verbatim>\<open>undefined\<close> is \<open>None\<close>.
  The \<^verbatim>\<open>description\<close> is a display text built from the same numbers and is left
  out.
\<close>

record suggestion =
  sug_type :: suggestion_type
  suggestedValue :: "jsnum option"
  suggestedPeriod :: "jsnum option"

text \<open>
  The future value factor \<^verbatim>\<open>(Math.pow(1 + monthlyRate, n) - 1) / monthlyRate\<close>, which
  \<^verbatim>\<open>generateAutoSuggestions\<close> computes for the full and for the shorter period. The
  function's last parameter has the default value 0 in the source and is passed
  explicitly here.
\<close>

definition annuityFactor :: "jsnum \<Rightarrow> jsnum \<Rightarrow> jsnum" where
  "annuityFactor monthlyRate n =
     js_div (js_sub (js_pow (js_add (Fin 1) monthlyRate) n) (Fin 1)) monthlyRate"

definition generateAutoSuggestions :: "real \<Rightarrow> real \<Rightarrow> real \<Rightarrow> real \<Rightarrow> suggestion list" where
  "generateAutoSuggestions currentPatrimony targetPatrimony timeHorizonYears currentMonthlyContribution =
     (let gap = js_sub (Fin targetPatrimony) (Fin currentPatrimony) in
      if js_le gap (Fin 0) then
        [\<lparr>sug_type = CONGRATULATIONS, suggestedValue = Some (Fin 0), suggestedPeriod = Some (Fin 0)\<rparr>]
      else
        let monthsRemaining = js_mul (Fin timeHorizonYears) (Fin 12);
            monthlyRate = js_div (Fin (4 / 100)) (Fin 12);
            futureValueFactor = annuityFactor monthlyRate monthsRemaining;
            requiredMonthlyContribution = js_div gap futureValueFactor;
            additionalContribution = js_sub requiredMonthlyContribution (Fin currentMonthlyContribution);
            contribution =
              (if js_gt additionalContribution (Fin 0) then
                 let shorterPeriod =
                       js_max (Fin 24) (js_mul (js_mul (Fin timeHorizonYears) (Fin 12)) (Fin (7 / 10)));
                     shorterMonthsFactor = annuityFactor monthlyRate shorterPeriod;
                     higherContribution =
                       js_sub (js_div gap shorterMonthsFactor) (Fin currentMonthlyContribution)
                 in \<lparr>sug_type = INCREASE_CONTRIBUTION,
                      suggestedValue = Some (js_round additionalContribution),
                      suggestedPeriod = Some (js_mul (Fin timeHorizonYears) (Fin 12))\<rparr> #
                    (if js_gt higherContribution additionalContribution then
                       [\<lparr>sug_type = INCREASE_CONTRIBUTION,
                         suggestedValue = Some (js_round higherContribution),
                         suggestedPeriod = Some shorterPeriod\<rparr>]
                     else [])
               else []);
            gapPercentage = js_mul (js_div gap (Fin targetPatrimony)) (Fin 100)
        in contribution @
           (if js_gt gapPercentage (Fin 50) then
              [\<lparr>sug_type = ADJUST_ALLOCATION, suggestedValue = None, suggestedPeriod = None\<rparr>]
            else []))"

record PortfolioMetrics =
  finalValue :: jsnum
  totalGain :: jsnum
  totalGainPercent :: jsnum
  cagr :: jsnum
  metricsProjectionYears :: nat

text \<open>\<^verbatim>\<open>Math.round(x * 100) / 100\<close> on a possibly non-finite number.\<close>

definition round_cents :: "jsnum \<Rightarrow> jsnum" where
  "round_cents a = js_div (js_round (js_mul a (Fin 100))) (Fin 100)"

definition calculatePortfolioMetrics :: "ProjectionPoint list \<Rightarrow> real \<Rightarrow> PortfolioMetrics option" where
  "calculatePortfolioMetrics projectionData initValue =
     (if length projectionData = 0 then None
      else
        let finalValue = Fin (projectedValue (projectionData ! (length projectionData - 1)));
            totalYears = length projectionData - 1;
            cagr = (if 0 < totalYears
                    then js_sub (js_pow (js_div finalValue (Fin initValue))
                                        (js_div (Fin 1) (Fin (real totalYears)))) (Fin 1)
                    else Fin 0);
            totalGain = js_sub finalValue (Fin initValue);
            totalGainPercent = (if 0 < initValue
                                then js_mul (js_div totalGain (Fin initValue)) (Fin 100)
                                else Fin 0)
        in Some \<lparr>finalValue = round_cents finalValue,
                 totalGain = round_cents totalGain,
                 totalGainPercent = round_cents totalGainPercent,
                 cagr = js_div (js_round (js_mul cagr (Fin 10000))) (Fin 100),
                 metricsProjectionYears = totalYears\<rparr>)"

text \<open>
  The local constant \<^verbatim>\<open>requiredMonthlyContribution\<close> of \<^verbatim>\<open>generateAutoSuggestions\<close>
  on the branch where the gap is positive, as a function of the arguments.
\<close>

definition requiredMonthlyContribution :: "real \<Rightarrow> real \<Rightarrow> real \<Rightarrow> jsnum" where
  "requiredMonthlyContribution currentPatrimony targetPatrimony timeHorizonYears =
     (let gap = js_sub (Fin targetPatrimony) (Fin currentPatrimony);
          monthsRemaining = js_mul (Fin timeHorizonYears) (Fin 12);
          monthlyRate = js_div (Fin (4 / 100)) (Fin 12);
          futureValueFactor = annuityFactor monthlyRate monthsRemaining
      in js_div gap futureValueFactor)"

section \<open>Properties of the resolver and the simulator\<close>


lemma months: "[0..11::int] = [0, 1, 2, 3, 4, 5, 6, 7, 8, 9, 10, 11]"
  by (simp add: upto_rec1)

lemma monthStep_nonneg: "0 \<le> monthStep r es ty v m"
  by (simp add: monthStep_def Let_def)

lemma months_nonneg: "ms \<noteq> [] \<Longrightarrow> 0 \<le> foldl (monthStep r es ty) v ms"
proof (induction ms rule: rev_induct)
  case Nil
  then show ?case by simp
next
  case (snoc m ms)
  show ?case by (simp add: monthStep_nonneg)
qed

lemma Math_round_nonneg: "0 \<le> x \<Longrightarrow> 0 \<le> Math_round (x * 100)"
  by (simp add: Math_round_def)

lemma yearStep_snd:
  "snd (yearStep cy r es st y) =
     snd st @ [\<lparr>year = cy + y,
                projectedValue = Math_round (fst (yearStep cy r es st y) * 100) / 100\<rparr>]"
  by (simp add: yearStep_def Let_def)

lemma yearStep_fst: "fst (yearStep cy r es st y) = foldl (monthStep r es (cy + y)) (fst st) [0..11]"
  by (simp add: yearStep_def Let_def)

lemma yearStep_fst_nonneg: "0 \<le> fst (yearStep cy r es st y)"
proof -
  have "[0..11::int] \<noteq> []"
    by (simp add: upto_rec1)
  then have "0 \<le> foldl (monthStep r es (cy + y)) (fst st) [0..11]"
    by (rule months_nonneg)
  then show ?thesis
    by (simp only: yearStep_fst)
qed

lemma years_length:
  "length (snd (foldl (yearStep cy r es) st ys)) = length (snd st) + length ys"
  by (induction ys arbitrary: st) (simp_all add: yearStep_snd)

lemma years_year:
  "map year (snd (foldl (yearStep cy r es) st ys)) = map year (snd st) @ map (\<lambda>y. cy + y) ys"
  by (induction ys arbitrary: st) (simp_all add: yearStep_snd)

lemma years_nonneg:
  "\<forall>p \<in> set (snd st). 0 \<le> projectedValue p \<Longrightarrow>
   \<forall>p \<in> set (snd (foldl (yearStep cy r es) st ys)). 0 \<le> projectedValue p"
proof (induction ys arbitrary: st)
  case Nil
  then show ?case by simp
next
  case (Cons y ys)
  have "\<forall>p \<in> set (snd (yearStep cy r es st y)). 0 \<le> projectedValue p"
    using Cons.prems by (simp add: yearStep_snd Math_round_nonneg yearStep_fst_nonneg)
  then show ?case using Cons.IH by simp
qed

lemma map_shift_upto: "map (\<lambda>y. cy + y) [i..j] = [cy + i..cy + j]"
proof (induction i j rule: upto.induct)
  case (1 i j)
  show ?case
  proof (cases "i \<le> j")
    case True
    then show ?thesis
      using 1 by (simp add: upto_rec1[of i j] upto_rec1[of "cy + i" "cy + j"] add.assoc)
  next
    case False
    then show ?thesis by simp
  qed
qed

text \<open>
  Evaluating one pass of the outer loop from the value its twelve months produce.
\<close>

lemma yearStep_eval:
  assumes "foldl (monthStep r es (cy + y)) v [0, 1, 2, 3, 4, 5, 6, 7, 8, 9, 10, 11] = v'"
  shows "yearStep cy r es (v, acc) y =
           (v', acc @ [\<lparr>year = cy + y, projectedValue = Math_round (v' * 100) / 100\<rparr>])"
proof -
  have "foldl (monthStep r es (cy + y)) v [0..11] = v'"
    using assms by (simp only: months)
  then show ?thesis
    by (simp only: yearStep_def Let_def fst_conv snd_conv)
qed

text \<open>
  C6. For a horizon \<open>projectionYears \<ge> 0\<close> the returned sequence has exactly
  \<open>projectionYears + 1\<close> points, and their years are the consecutive calendar years
  from the current one, in ascending order.
\<close>

theorem simulateWealthCurve_length_years:
  assumes "0 \<le> projectionYears params"
  shows "int (length (simulateWealthCurve currentYear params)) = projectionYears params + 1 \<and>
         map year (simulateWealthCurve currentYear params) =
           [currentYear..currentYear + projectionYears params] \<and>
         sorted_wrt (<) (map year (simulateWealthCurve currentYear params))"
proof -
  have len: "length (simulateWealthCurve currentYear params) = length [0..projectionYears params]"
    by (simp add: simulateWealthCurve_def yearLoop_def Let_def years_length)
  have yrs: "map year (simulateWealthCurve currentYear params) =
          [currentYear..currentYear + projectionYears params]"
    using map_shift_upto[of currentYear 0 "projectionYears params"]
    by (simp add: simulateWealthCurve_def yearLoop_def Let_def years_year)
  have "sorted_wrt (<) [currentYear..currentYear + projectionYears params]"
    by simp
  with len yrs assms show ?thesis by simp
qed

theorem simulateWealthCurve_length_years_witness:
  "0 \<le> (1::int) \<and>
   int (length (simulateWealthCurve 2026
     \<lparr>initialValue = 100000, interestRate = 12 / 100, events = [], projectionYears = 1\<rparr>)) = 2 \<and>
   map year (simulateWealthCurve 2026
     \<lparr>initialValue = 100000, interestRate = 12 / 100, events = [], projectionYears = 1\<rparr>) =
     [2026, 2027]"
  using simulateWealthCurve_length_years
          [of "\<lparr>initialValue = 100000, interestRate = 12 / 100, events = [], projectionYears = 1\<rparr>" 2026]
  by (simp add: upto_rec1)

lemmas month_eval = monthStep_def newDate_def event_applies_def date_less_def applyEvent_def Let_def

lemma expense_example:
  "simulateWealthCurve 2024
     \<lparr>initialValue = 100000, interestRate = 4 / 100,
      events = [\<lparr>ev_type = EXPENSE, ev_value = 200000, ev_frequency = ONCE,
                startDate = \<lparr>getFullYear = 2024, getMonth = 0, getDate = 1, msOfDay = 0\<rparr>,
                endDate = None\<rparr>],
      projectionYears = 0\<rparr> = [\<lparr>year = 2024, projectedValue = 0\<rparr>]"
proof -
  let ?es = "[\<lparr>ev_type = EXPENSE, ev_value = 200000, ev_frequency = ONCE,
                startDate = \<lparr>getFullYear = 2024, getMonth = 0, getDate = 1, msOfDay = 0\<rparr>,
                endDate = None\<rparr>]"
  have "foldl (monthStep (4 / 100 / 12) ?es (2024 + 0)) 100000 [0, 1, 2, 3, 4, 5, 6, 7, 8, 9, 10, 11] = 0"
    by (simp add: month_eval)
  from yearStep_eval[where cy=2024 and y=0 and acc="[]", OF this]
  show ?thesis
    by (simp add: simulateWealthCurve_def yearLoop_def Math_round_def)
qed

text \<open>
  C5. Every projected value of the returned sequence is non-negative, whatever the
  events subtract: each monthly step ends with \<^verbatim>\<open>Math.max(0, currentValue)\<close>, so its
  result is never negative, and a yearly point is the rounding of such a result.
\<close>

theorem simulateWealthCurve_nonneg:
  "(\<forall>p \<in> set (simulateWealthCurve currentYear params). 0 \<le> projectedValue p) \<and>
   0 \<le> monthStep monthlyRate evs targetYear currentValue month"
  using years_nonneg[of "(initialValue params, [])" currentYear "interestRate params / 12"
          "events params" "[0..projectionYears params]"]
  by (simp add: simulateWealthCurve_def yearLoop_def Let_def monthStep_nonneg)

theorem simulateWealthCurve_nonneg_witness:
  "hd (simulateWealthCurve 2024
     \<lparr>initialValue = 100000, interestRate = 4 / 100,
      events = [\<lparr>ev_type = EXPENSE, ev_value = 200000, ev_frequency = ONCE,
                startDate = \<lparr>getFullYear = 2024, getMonth = 0, getDate = 1, msOfDay = 0\<rparr>,
                endDate = None\<rparr>],
      projectionYears = 0\<rparr>)
     \<in> set (simulateWealthCurve 2024
     \<lparr>initialValue = 100000, interestRate = 4 / 100,
      events = [\<lparr>ev_type = EXPENSE, ev_value = 200000, ev_frequency = ONCE,
                startDate = \<lparr>getFullYear = 2024, getMonth = 0, getDate = 1, msOfDay = 0\<rparr>,
                endDate = None\<rparr>],
      projectionYears = 0\<rparr>) \<and>
   0 \<le> projectedValue (hd (simulateWealthCurve 2024
     \<lparr>initialValue = 100000, interestRate = 4 / 100,
      events = [\<lparr>ev_type = EXPENSE, ev_value = 200000, ev_frequency = ONCE,
                startDate = \<lparr>getFullYear = 2024, getMonth = 0, getDate = 1, msOfDay = 0\<rparr>,
                endDate = None\<rparr>],
      projectionYears = 0\<rparr>))"
  (is "hd ?r \<in> set ?r \<and> _")
proof -
  have mem: "hd ?r \<in> set ?r"
    by (simp only: expense_example list.sel list.set insertI1)
  have "\<forall>p \<in> set ?r. 0 \<le> projectedValue p"
    using simulateWealthCurve_nonneg by (rule conjunct1)
  with mem show ?thesis by blast
qed

lemma months_no_events:
  "0 \<le> v \<Longrightarrow> 0 \<le> 1 + r \<Longrightarrow> foldl (monthStep r [] ty) v ms = v * (1 + r) ^ length ms"
proof (induction ms arbitrary: v)
  case Nil
  then show ?case by simp
next
  case (Cons m ms)
  have "0 \<le> v * (1 + r)" using Cons.prems by simp
  then have "monthStep r [] ty v m = v * (1 + r)" by (simp add: monthStep_def)
  moreover have "foldl (monthStep r [] ty) (v * (1 + r)) ms = v * (1 + r) * (1 + r) ^ length ms"
    using Cons.IH[of "v * (1 + r)"] Cons.prems by simp
  ultimately show ?case by simp
qed

lemma yearStep_no_events:
  assumes "0 \<le> v" "0 \<le> 1 + r"
  shows "yearStep cy r [] (v, acc) y =
           (v * (1 + r) ^ 12,
            acc @ [\<lparr>year = cy + y, projectedValue = Math_round (v * (1 + r) ^ 12 * 100) / 100\<rparr>])"
proof -
  have l: "length [0, 1, 2, 3, 4, 5, 6, 7, 8, 9, 10, 11 :: int] = 12"
    by simp
  have "foldl (monthStep r [] (cy + y)) v [0, 1, 2, 3, 4, 5, 6, 7, 8, 9, 10, 11] = v * (1 + r) ^ 12"
    using months_no_events[OF assms, of "cy + y" "[0, 1, 2, 3, 4, 5, 6, 7, 8, 9, 10, 11]"]
    unfolding l .
  then show ?thesis by (rule yearStep_eval)
qed

lemma years_no_events:
  assumes "0 \<le> v" "0 \<le> 1 + r"
  shows "fst (foldl (yearStep cy r []) (v, acc) ys) = v * (1 + r) ^ (12 * length ys)"
  using assms(1)
proof (induction ys arbitrary: v acc)
  case Nil
  then show ?case by simp
next
  case (Cons y ys)
  have nn: "0 \<le> v * (1 + r) ^ 12" using Cons.prems assms(2) by simp
  show ?case
    using Cons.IH[OF nn] by (simp add: yearStep_no_events[OF Cons.prems assms(2)] power_add mult.assoc)
qed

lemma no_events_closed_form:
  assumes "0 \<le> Y" "0 \<le> v" "0 \<le> 1 + rate / 12"
  shows "simulateWealthCurve cy \<lparr>initialValue = v, interestRate = rate, events = [], projectionYears = Y\<rparr> ! nat Y =
           \<lparr>year = cy + Y, projectedValue = Math_round (v * (1 + rate / 12) ^ (12 * (nat Y + 1)) * 100) / 100\<rparr>"
proof -
  let ?r = "rate / 12"
  let ?st = "foldl (yearStep cy ?r []) (v, []) [0..Y - 1]"
  have split: "[0..Y] = [0..Y - 1] @ [Y]"
    using assms(1) by (simp add: upto_rec2)
  have len: "length (snd ?st) = nat Y"
    using assms(1) by (simp add: years_length)
  have fst: "fst ?st = v * (1 + ?r) ^ (12 * nat Y)"
    using years_no_events[OF assms(2,3), of cy "[]" "[0..Y - 1]"] assms(1) by simp
  have nn: "0 \<le> fst ?st"
    using fst assms by simp
  have "yearStep cy ?r [] ?st Y =
          (fst ?st * (1 + ?r) ^ 12,
           snd ?st @ [\<lparr>year = cy + Y, projectedValue = Math_round (fst ?st * (1 + ?r) ^ 12 * 100) / 100\<rparr>])"
    using yearStep_no_events[OF nn assms(3), of cy "snd ?st" Y] by simp
  then have "simulateWealthCurve cy \<lparr>initialValue = v, interestRate = rate, events = [], projectionYears = Y\<rparr> =
      snd ?st @ [\<lparr>year = cy + Y, projectedValue = Math_round (fst ?st * (1 + ?r) ^ 12 * 100) / 100\<rparr>]"
    by (simp add: simulateWealthCurve_def yearLoop_def Let_def split)
  then show ?thesis
    using len by (simp add: fst power_add nth_append ac_simps)
qed

text \<open>
  The repository's unit test \<^verbatim>\<open>should calculate simple compound growth without events\<close>
  runs the simulator on an initial value of 100000 at an annual rate of 0.12 for one
  projection year, without events.
\<close>

lemma compound_growth_example:
  "simulateWealthCurve cy
     \<lparr>initialValue = 100000, interestRate = 12 / 100, events = [], projectionYears = 1\<rparr> =
     [\<lparr>year = cy, projectedValue = 112682.5\<rparr>, \<lparr>year = cy + 1, projectedValue = 126973.46\<rparr>]"
proof -
  let ?r = "12 / 100 / 12 :: real"
  let ?v1 = "100000 * (1 + ?r) ^ 12"
  let ?v2 = "?v1 * (1 + ?r) ^ 12"
  have r1: "Math_round (?v1 * 100) / 100 = 112682.5"
    by (simp add: Math_round_def power_divide)
  have r2: "Math_round (?v2 * 100) / 100 = 126973.46"
    by (simp add: Math_round_def power_divide)
  have s1: "yearStep cy ?r [] (100000, []) 0 =
          (?v1, [] @ [\<lparr>year = cy + 0, projectedValue = Math_round (?v1 * 100) / 100\<rparr>])"
    by (rule yearStep_no_events) simp_all
  have s2: "yearStep cy ?r [] (?v1, [\<lparr>year = cy, projectedValue = 112682.5\<rparr>]) 1 =
          (?v2, [\<lparr>year = cy, projectedValue = 112682.5\<rparr>] @
                [\<lparr>year = cy + 1, projectedValue = Math_round (?v2 * 100) / 100\<rparr>])"
    by (rule yearStep_no_events) simp_all
  have s1': "yearStep cy ?r [] (100000, []) 0 = (?v1, [\<lparr>year = cy, projectedValue = 112682.5\<rparr>])"
    by (simp only: s1 r1 append_Nil add_0_right)
  have s2': "yearStep cy ?r [] (?v1, [\<lparr>year = cy, projectedValue = 112682.5\<rparr>]) 1 =
          (?v2, [\<lparr>year = cy, projectedValue = 112682.5\<rparr>, \<lparr>year = cy + 1, projectedValue = 126973.46\<rparr>])"
    by (simp only: s2 r2 append_Cons append_Nil)
  have "[0..1::int] = [0, 1]"
    by (simp add: upto_rec1)
  then have "yearLoop cy \<lparr>initialValue = 100000, interestRate = 12 / 100, events = [], projectionYears = 1\<rparr> =
      (?v2, [\<lparr>year = cy, projectedValue = 112682.5\<rparr>, \<lparr>year = cy + 1, projectedValue = 126973.46\<rparr>])"
    by (simp only: yearLoop_def Let_def WealthProjectionParams.simps foldl_Cons foldl_Nil s1' s2')
  then show ?thesis
    by (simp only: simulateWealthCurve_def snd_conv)
qed

lemma income_in_year_zero_example:
  "simulateWealthCurve 2026
     \<lparr>initialValue = 1000, interestRate = 0,
      events = [\<lparr>ev_type = INCOME, ev_value = 500, ev_frequency = ONCE,
                startDate = \<lparr>getFullYear = 2026, getMonth = 2, getDate = 1, msOfDay = 0\<rparr>,
                endDate = None\<rparr>],
      projectionYears = 0\<rparr> = [\<lparr>year = 2026, projectedValue = 1500\<rparr>]"
proof -
  let ?es = "[\<lparr>ev_type = INCOME, ev_value = 500, ev_frequency = ONCE,
                startDate = \<lparr>getFullYear = 2026, getMonth = 2, getDate = 1, msOfDay = 0\<rparr>,
                endDate = None\<rparr>]"
  have "foldl (monthStep (0 / 12) ?es (2026 + 0)) 1000 [0, 1, 2, 3, 4, 5, 6, 7, 8, 9, 10, 11] = 1500"
    by (simp add: month_eval)
  from yearStep_eval[where cy=2026 and y=0 and acc="[]", OF this]
  show ?thesis
    by (simp add: simulateWealthCurve_def yearLoop_def Math_round_def)
qed

text \<open>
  C1. The first point is claimed to be the untouched initial value, with the twelve
  monthly steps of the current year skipped. The outer loop of the code starts at year
  offset 0 and runs the twelve monthly steps before it pushes the first point. On the
  input of the unit test the first point is 112682.50, where the test expects 100000;
  and a one-time income dated in the current year is already part of the first point.
\<close>

theorem simulateWealthCurve_first_point_grown:
  "simulateWealthCurve cy
     \<lparr>initialValue = 100000, interestRate = 12 / 100, events = [], projectionYears = 1\<rparr> ! 0 =
     \<lparr>year = cy, projectedValue = 112682.5\<rparr> \<and>
   simulateWealthCurve 2026
     \<lparr>initialValue = 1000, interestRate = 0,
      events = [\<lparr>ev_type = INCOME, ev_value = 500, ev_frequency = ONCE,
                startDate = \<lparr>getFullYear = 2026, getMonth = 2, getDate = 1, msOfDay = 0\<rparr>,
                endDate = None\<rparr>],
      projectionYears = 0\<rparr> ! 0 = \<lparr>year = 2026, projectedValue = 1500\<rparr>"
  by (simp only: compound_growth_example income_in_year_zero_example nth_Cons_0 simp_thms)

text \<open>
  C2. Without events the point at index \<open>Y\<close> is claimed to be the initial value
  compounded over \<open>12 * Y\<close> months. The code compounds over \<open>12 * (Y + 1)\<close> months
  (\<open>no_events_closed_form\<close>): on the input of the unit test, with \<open>Y = 1\<close>, the point
  at index 1 is 126973.46, while the claimed value, which the test expects, is
  100000 * 1.01 ^ 12 = 112682.50.
\<close>

theorem simulateWealthCurve_compounds_extra_year:
  "projectedValue (simulateWealthCurve cy
     \<lparr>initialValue = 100000, interestRate = 12 / 100, events = [], projectionYears = 1\<rparr> ! 1) =
     126973.46 \<and>
   Math_round (100000 * (1 + 12 / 100 / 12) ^ (12 * 1) * 100) / 100 = 112682.5"
proof -
  have "Math_round (100000 * (1 + 12 / 100 / 12) ^ (12 * 1) * 100) / 100 = 112682.5"
    by (simp add: Math_round_def power_divide)
  then show ?thesis
    by (simp only: compound_growth_example nth_Cons_Suc nth_Cons_0 One_nat_def
          ProjectionPoint.simps simp_thms)
qed

lemma js_rem_zero_iff: "js_rem a 3 = 0 \<longleftrightarrow> a mod 3 = 0"
  by (auto simp: js_rem_def sgn_if abs_if zmod_zminus1_eq_if split: if_splits)

text \<open>
  For a QUARTERLY event and a target date that has passed the two guards of the loop,
  the months elapsed are counted from the event's own start month and the event is
  returned if and only if that count is a multiple of three.
\<close>

lemma quarterly_applies_past_guards:
  assumes "ev_frequency e = QUARTERLY"
    and "\<not> date_less targetDate (startDate e)"
    and "case endDate e of None \<Rightarrow> True | Some ed \<Rightarrow> \<not> date_less ed targetDate"
  shows "getMonthsDifference (startDate e) targetDate =
           (getFullYear targetDate - getFullYear (startDate e)) * 12 +
           (getMonth targetDate - getMonth (startDate e)) \<and>
         (event_applies e targetDate \<longleftrightarrow>
            js_rem ((getFullYear targetDate - getFullYear (startDate e)) * 12 +
                    (getMonth targetDate - getMonth (startDate e))) 3 = 0) \<and>
         getEventsForMonth [e] targetDate =
           (if ((getFullYear targetDate - getFullYear (startDate e)) * 12 +
                (getMonth targetDate - getMonth (startDate e))) mod 3 = 0 then [e] else [])"
proof -
  have md: "getMonthsDifference (startDate e) targetDate =
           (getFullYear targetDate - getFullYear (startDate e)) * 12 +
           (getMonth targetDate - getMonth (startDate e))"
    by (simp add: getMonthsDifference_def Let_def)
  have ap: "event_applies e targetDate \<longleftrightarrow>
              js_rem (getMonthsDifference (startDate e) targetDate) 3 = 0"
    using assms by (simp add: event_applies_def split: option.splits)
  show ?thesis
    using ap md by (simp add: js_rem_zero_iff)
qed

text \<open>
  C7. A QUARTERLY event is claimed to apply, in every month within its start and end
  bounds, if and only if the months elapsed since its start month are a multiple of
  three. In the event's own start month the count is 0, yet the guard
  \<^verbatim>\<open>startDate > targetDate\<close> compares the full start date with the first instant of
  that month: an event dated 15 February 2026 is not returned for February 2026, and
  is first returned for May 2026. The same event dated 1 February 2026 is returned for
  February 2026.
\<close>

theorem quarterly_start_month_not_applied:
  "js_rem (getMonthsDifference
             \<lparr>getFullYear = 2026, getMonth = 1, getDate = 15, msOfDay = 0\<rparr> (newDate 2026 1 1)) 3 = 0 \<and>
   getEventsForMonth
     [\<lparr>ev_type = INVESTMENT, ev_value = 1000, ev_frequency = QUARTERLY,
       startDate = \<lparr>getFullYear = 2026, getMonth = 1, getDate = 15, msOfDay = 0\<rparr>,
       endDate = None\<rparr>] (newDate 2026 1 1) = [] \<and>
   getEventsForMonth
     [\<lparr>ev_type = INVESTMENT, ev_value = 1000, ev_frequency = QUARTERLY,
       startDate = \<lparr>getFullYear = 2026, getMonth = 1, getDate = 15, msOfDay = 0\<rparr>,
       endDate = None\<rparr>] (newDate 2026 4 1) \<noteq> [] \<and>
   getEventsForMonth
     [\<lparr>ev_type = INVESTMENT, ev_value = 1000, ev_frequency = QUARTERLY,
       startDate = \<lparr>getFullYear = 2026, getMonth = 1, getDate = 1, msOfDay = 0\<rparr>,
       endDate = None\<rparr>] (newDate 2026 1 1) \<noteq> []"
  by (simp add: event_applies_def date_less_def newDate_def getMonthsDifference_def js_rem_def)

lemma once_after_first_instant_never_applies:
  assumes "ev_frequency e = ONCE"
    and "1 < getDate (startDate e) \<or> (getDate (startDate e) = 1 \<and> 0 < msOfDay (startDate e))"
  shows "\<not> event_applies e (newDate y m 1)"
  using assms by (auto simp: event_applies_def date_less_def newDate_def split: option.splits)

text \<open>
  C3. A ONCE event is claimed to apply in the month of its start date whatever the day
  of the month, the start guard being decided on year and month. The guard
  \<^verbatim>\<open>startDate > targetDate\<close> compares the full start date with the first instant of the
  target month: an event dated 15 June 2025 is skipped for June 2025, and the year and
  month test then fails for every later month, so it applies in no month at all. The
  same event dated 1 June 2025 is applied in June 2025.
\<close>

theorem once_mid_month_not_applied:
  "getEventsForMonth
     [\<lparr>ev_type = BONUS, ev_value = 50000, ev_frequency = ONCE,
       startDate = \<lparr>getFullYear = 2025, getMonth = 5, getDate = 15, msOfDay = 0\<rparr>,
       endDate = None\<rparr>] (newDate 2025 5 1) = [] \<and>
   getEventsForMonth
     [\<lparr>ev_type = BONUS, ev_value = 50000, ev_frequency = ONCE,
       startDate = \<lparr>getFullYear = 2025, getMonth = 5, getDate = 15, msOfDay = 0\<rparr>,
       endDate = None\<rparr>] (newDate 2025 6 1) = [] \<and>
   getEventsForMonth
     [\<lparr>ev_type = BONUS, ev_value = 50000, ev_frequency = ONCE,
       startDate = \<lparr>getFullYear = 2025, getMonth = 5, getDate = 1, msOfDay = 0\<rparr>,
       endDate = None\<rparr>] (newDate 2025 5 1) \<noteq> []"
  by (simp add: event_applies_def date_less_def newDate_def)

section \<open>Properties of the planning analytics\<close>

lemma annuityFactor_fin:
  "annuityFactor (Fin (1 / 300)) (Fin n) = Fin (((301 / 300) powr n - 1) * 300)"
  by (simp add: annuityFactor_def js_sub_def real_pow_def)

text \<open>
  C8. When the target does not exceed the current patrimony, the result is the single
  CONGRATULATIONS suggestion with value 0 and period 0, and nothing else is computed.
\<close>

theorem congratulations_when_no_gap:
  assumes "targetPatrimony - currentPatrimony \<le> 0"
  shows "generateAutoSuggestions currentPatrimony targetPatrimony timeHorizonYears
           currentMonthlyContribution =
         [\<lparr>sug_type = CONGRATULATIONS, suggestedValue = Some (Fin 0), suggestedPeriod = Some (Fin 0)\<rparr>]"
  using assms by (simp add: generateAutoSuggestions_def js_sub_def)

theorem congratulations_when_no_gap_witness:
  "(800000::real) - 1000000 \<le> 0 \<and>
   generateAutoSuggestions 1000000 800000 10 5000 =
     [\<lparr>sug_type = CONGRATULATIONS, suggestedValue = Some (Fin 0), suggestedPeriod = Some (Fin 0)\<rparr>]"
proof -
  have h: "(800000::real) - 1000000 \<le> 0"
    by simp
  from congratulations_when_no_gap[OF h] h show ?thesis
    by blast
qed

text \<open>
  C10. The result can be empty: when the gap is positive, the current monthly
  contribution is at least the required one, and the gap is at most half of the
  target, no suggestion is pushed.
\<close>

theorem no_suggestion_when_contribution_suffices:
  assumes "currentPatrimony < targetPatrimony"
    and "js_le (requiredMonthlyContribution currentPatrimony targetPatrimony timeHorizonYears)
           (Fin currentMonthlyContribution)"
    and "targetPatrimony - currentPatrimony \<le> targetPatrimony / 2"
  shows "generateAutoSuggestions currentPatrimony targetPatrimony timeHorizonYears
           currentMonthlyContribution = []"
proof -
  let ?req = "requiredMonthlyContribution currentPatrimony targetPatrimony timeHorizonYears"
  have tpos: "0 < targetPatrimony"
    using assms(1,3) by simp
  have nogt: "\<not> js_gt (js_sub ?req (Fin currentMonthlyContribution)) (Fin 0)"
    using assms(2) by (cases ?req) (simp_all add: js_sub_def)
  have pct: "\<not> js_gt (js_mul (js_div (Fin (targetPatrimony - currentPatrimony)) (Fin targetPatrimony)) (Fin 100)) (Fin 50)"
    using tpos assms(3) by (simp add: field_simps)
  show ?thesis
    using assms(1) nogt pct
    by (simp add: generateAutoSuggestions_def requiredMonthlyContribution_def js_sub_def Let_def)
qed


theorem no_suggestion_when_contribution_suffices_witness:
  "(60::real) < 100 \<and>
   js_le (requiredMonthlyContribution 60 100 1) (Fin 1000) \<and>
   (100::real) - 60 \<le> 100 / 2 \<and>
   generateAutoSuggestions 60 100 1 1000 = []"
proof -
  have h1: "(60::real) < 100" and h3: "(100::real) - 60 \<le> 100 / 2"
    by simp_all
  have ne: "(301 / 300 :: real) ^ 12 \<noteq> 1"
    by (simp add: power_divide)
  have "requiredMonthlyContribution 60 100 1 = Fin (40 / (((301 / 300) powr 12 - 1) * 300))"
    using ne by (simp add: requiredMonthlyContribution_def js_sub_def annuityFactor_fin)
  moreover have "40 / (((301 / 300 :: real) powr 12 - 1) * 300) \<le> 1000"
    by (simp add: power_divide)
  ultimately have h2: "js_le (requiredMonthlyContribution 60 100 1) (Fin 1000)"
    by simp
  from no_suggestion_when_contribution_suffices[OF h1 h2 h3] h1 h2 h3 show ?thesis
    by blast
qed

text \<open>
  \<^verbatim>\<open>generateAutoSuggestions\<close> has no guard against a zero divisor either: with a time
  horizon of 0 years the future value factor is 0, the required contribution is
  \<^verbatim>\<open>Infinity\<close>, and it is returned as the suggested value.
\<close>

lemma zero_horizon_suggestion_example:
  "generateAutoSuggestions 0 100 0 0 =
     [\<lparr>sug_type = INCREASE_CONTRIBUTION, suggestedValue = Some PosInf, suggestedPeriod = Some (Fin 0)\<rparr>,
      \<lparr>sug_type = ADJUST_ALLOCATION, suggestedValue = None, suggestedPeriod = None\<rparr>]"
proof -
  have ne: "(301 / 300 :: real) ^ 24 \<noteq> 1"
    by (simp add: power_divide)
  show ?thesis
    using ne
    by (simp add: generateAutoSuggestions_def Let_def js_sub_def annuityFactor_fin signed_inf_def)
qed

text \<open>
  C4. Every division by zero in the analytics is claimed to be defused by a guard that
  substitutes 0, so that \<^verbatim>\<open>calculatePortfolioMetrics\<close> with an initial value of 0 on a
  non-empty curve yields a \<^verbatim>\<open>cagr\<close> of 0. The guard \<^verbatim>\<open>initialValue > 0\<close> protects
  \<^verbatim>\<open>totalGainPercent\<close> only: \<^verbatim>\<open>cagr\<close> divides the final value by the initial value
  under the guard \<^verbatim>\<open>totalYears > 0\<close> alone. With an initial value of 0, a curve of two
  points ending at 100 has the \<^verbatim>\<open>cagr\<close> \<^verbatim>\<open>Infinity\<close>, and a curve of two points ending
  at 0 has the \<^verbatim>\<open>cagr\<close> \<^verbatim>\<open>NaN\<close>, while \<^verbatim>\<open>totalGainPercent\<close> is 0 in both.
\<close>

theorem cagr_unguarded_at_zero_initial_value:
  "calculatePortfolioMetrics [\<lparr>year = 2024, projectedValue = 0\<rparr>, \<lparr>year = 2025, projectedValue = 100\<rparr>] 0 =
     Some \<lparr>finalValue = Fin 100, totalGain = Fin 100, totalGainPercent = Fin 0, cagr = PosInf,
           metricsProjectionYears = 1\<rparr> \<and>
   calculatePortfolioMetrics [\<lparr>year = 2024, projectedValue = 0\<rparr>, \<lparr>year = 2025, projectedValue = 0\<rparr>] 0 =
     Some \<lparr>finalValue = Fin 0, totalGain = Fin 0, totalGainPercent = Fin 0, cagr = NaN,
           metricsProjectionYears = 1\<rparr>"
  by (simp add: calculatePortfolioMetrics_def Let_def round_cents_def js_sub_def signed_inf_def
        Math_round_def)

section \<open>The effect of a monthly income\<close>













end
